theory Spec2Isabelle
  imports Complex_Main "HOL-Library.Word"
begin

section \<open>Python values\<close>

text \<open>
  A Python \<open>str\<close> is a sequence of Unicode code points, and \<open>len\<close> and slicing count
  code points. A string is therefore a list of code points; \<open>u\<close> embeds an ASCII literal.
  \<open>bytes\<close> is a list of octets.
\<close>

type_synonym pystr = "nat list"

type_synonym bytes = "8 word list"

definition u :: "string \<Rightarrow> pystr" where
  "u s = map of_char s"

text \<open>\<open>str(n)\<close> for a non-negative integer: its decimal digits.\<close>

fun str_nat :: "nat \<Rightarrow> pystr" where
  "str_nat n = (if n < 10 then [48 + n] else str_nat (n div 10) @ [48 + n mod 10])"

definition str_int :: "int \<Rightarrow> pystr" where
  "str_int i = (if i < 0 then 45 # str_nat (nat (- i)) else str_nat (nat i))"

text \<open>\<open>s.rstrip("/")\<close>: drop every trailing slash (code point 47).\<close>

definition rstrip_slash :: "pystr \<Rightarrow> pystr" where
  "rstrip_slash s = rev (dropWhile (\<lambda>c. c = 47) (rev s))"

text \<open>
  \<open>s.strip()\<close>: drop leading and trailing whitespace, where whitespace is what
  \<open>str.isspace\<close> accepts.
\<close>

definition isspace :: "nat \<Rightarrow> bool" where
  "isspace c = ((9 \<le> c \<and> c \<le> 13) \<or> (28 \<le> c \<and> c \<le> 32) \<or> c = 133 \<or> c = 160
     \<or> c = 5760 \<or> (8192 \<le> c \<and> c \<le> 8202) \<or> c = 8232 \<or> c = 8233 \<or> c = 8239
     \<or> c = 8287 \<or> c = 12288)"

definition strip :: "pystr \<Rightarrow> pystr" where
  "strip s = rev (dropWhile isspace (rev (dropWhile isspace s)))"

text \<open>
  Exceptions: the class and the text that \<open>str(e)\<close> gives. The classes are those of
  \<open>requests.exceptions\<close>, Playwright's two error classes, and \<open>Builtin name\<close> for any other
  subclass of \<open>Exception\<close> (\<open>OSError\<close>, \<open>AttributeError\<close>, a bare \<open>Exception\<close>, ...).
  Signals that derive from \<open>BaseException\<close> only (\<open>KeyboardInterrupt\<close>, \<open>SystemExit\<close>) are
  outside the model.
\<close>

datatype exc_class =
    RequestException
  | InvalidJSONError
  | JSONDecodeError
  | HTTPError
  | ConnectionError
  | ProxyError
  | SSLError
  | Timeout
  | ConnectTimeout
  | ReadTimeout
  | URLRequired
  | TooManyRedirects
  | MissingSchema
  | InvalidSchema
  | InvalidURL
  | InvalidProxyURL
  | InvalidHeader
  | ChunkedEncodingError
  | ContentDecodingError
  | StreamConsumedError
  | RetryError
  | UnrewindableBodyError
  | PlaywrightError
  | PlaywrightTimeoutError
  | Builtin pystr

datatype py_exception = Exc (exc_type: exc_class) (exc_str: pystr)

text \<open>\<open>isinstance(e, requests.exceptions.Timeout)\<close>: \<open>Timeout\<close> and its subclasses.\<close>

fun is_Timeout :: "exc_class \<Rightarrow> bool" where
  "is_Timeout Timeout = True"
| "is_Timeout ConnectTimeout = True"
| "is_Timeout ReadTimeout = True"
| "is_Timeout _ = False"

text \<open>
  \<open>isinstance(e, requests.exceptions.ConnectionError)\<close>. \<open>ConnectTimeout\<close> derives from
  both \<open>ConnectionError\<close> and \<open>Timeout\<close>.
\<close>

fun is_ConnectionError :: "exc_class \<Rightarrow> bool" where
  "is_ConnectionError ConnectionError = True"
| "is_ConnectionError ProxyError = True"
| "is_ConnectionError SSLError = True"
| "is_ConnectionError ConnectTimeout = True"
| "is_ConnectionError _ = False"

text \<open>\<open>isinstance(e, requests.exceptions.RequestException)\<close>.\<close>

fun is_RequestException :: "exc_class \<Rightarrow> bool" where
  "is_RequestException PlaywrightError = False"
| "is_RequestException PlaywrightTimeoutError = False"
| "is_RequestException (Builtin _) = False"
| "is_RequestException _ = True"

section \<open>config/settings.py\<close>

text \<open>
  \<open>random.randint(a, b)\<close> returns an integer \<open>N\<close> with \<open>a \<le> N \<le> b\<close> and advances the
  generator. The generator is a sequence of raw draws and the position of the next one.
\<close>

record rng =
  raw :: "nat \<Rightarrow> nat"
  pos :: nat

definition randint :: "rng \<Rightarrow> int \<Rightarrow> int \<Rightarrow> int \<times> rng" where
  "randint g a b = (a + int (raw g (pos g) mod nat (b - a + 1)), g\<lparr>pos := Suc (pos g)\<rparr>)"

record TimeoutConfig =
  DEFAULT_TIMEOUT :: int
  TYPING_TIMEOUT :: int
  SHORT13_TIMEOUT :: int
  SHORT24_TIMEOUT :: int
  LONG_TIMEOUT :: int
  PAGE_LOAD_TIMEOUT :: int
  ELEMENT_TIMEOUT :: int

text \<open>
  The body of \<open>class TimeoutConfig\<close> runs once, when the module is imported: the three
  \<open>random.randint\<close> calls are evaluated there, in source order, and their results become the
  default values of the dataclass fields.
\<close>

definition TimeoutConfig_class_body :: "rng \<Rightarrow> TimeoutConfig \<times> rng" where
  "TimeoutConfig_class_body g0 =
     (let (typing, g1) = randint g0 300 500;
          (short13, g2) = randint g1 1000 3000;
          (short24, g3) = randint g2 2000 4000
      in (\<lparr>DEFAULT_TIMEOUT = 30000, TYPING_TIMEOUT = typing, SHORT13_TIMEOUT = short13,
           SHORT24_TIMEOUT = short24, LONG_TIMEOUT = 60000, PAGE_LOAD_TIMEOUT = 45000,
           ELEMENT_TIMEOUT = 10000\<rparr>, g3))"

text \<open>
  The process after \<open>config.settings\<close> has been imported: the generator and the defaults of
  \<open>TimeoutConfig\<close>. \<open>TimeoutConfig()\<close> builds an instance from the stored defaults; it does
  not touch the generator. \<open>Settings.__init__\<close> stores one such instance as
  \<open>settings.timeouts\<close>; the dataclass is frozen, so a field is never assigned afterwards.
\<close>

record process =
  generator :: rng
  TimeoutConfig_defaults :: TimeoutConfig

definition import_settings :: "rng \<Rightarrow> process" where
  "import_settings g0 =
     (let (d, g) = TimeoutConfig_class_body g0
      in \<lparr>generator = g, TimeoutConfig_defaults = d\<rparr>)"

definition TimeoutConfig_init :: "process \<Rightarrow> TimeoutConfig \<times> process" where
  "TimeoutConfig_init p = (TimeoutConfig_defaults p, p)"

definition Settings_timeouts :: "process \<Rightarrow> TimeoutConfig \<times> process" where
  "Settings_timeouts p = TimeoutConfig_init p"

text \<open>The fields of a \<open>TimeoutConfig\<close>, in declaration order.\<close>

definition timeout_fields :: "TimeoutConfig \<Rightarrow> int list" where
  "timeout_fields t = [DEFAULT_TIMEOUT t, TYPING_TIMEOUT t, SHORT13_TIMEOUT t,
     SHORT24_TIMEOUT t, LONG_TIMEOUT t, PAGE_LOAD_TIMEOUT t, ELEMENT_TIMEOUT t]"

section \<open>utils/pinterest_api.py\<close>

text \<open>
  Names that start with an underscore in the source (\<open>_make_request\<close>,
  \<open>_process_response\<close>, \<open>_create_session\<close>, \<open>_get_active_search_box\<close>) are written without
  it. Records of the logger at DEBUG level are not part of the model; INFO, WARNING and
  ERROR records are.
\<close>

datatype HTTPMethod = GET | POST | PUT | DELETE | PATCH

fun HTTPMethod_value :: "HTTPMethod \<Rightarrow> pystr" where
  "HTTPMethod_value GET = u ''GET''"
| "HTTPMethod_value POST = u ''POST''"
| "HTTPMethod_value PUT = u ''PUT''"
| "HTTPMethod_value DELETE = u ''DELETE''"
| "HTTPMethod_value PATCH = u ''PATCH''"

text \<open>
  What \<open>response.json()\<close> can return. \<open>JNull\<close> is Python's \<open>None\<close>. Numbers are integers
  here; a non-integer number is outside the model.
\<close>

datatype json =
    JNull
  | JBool bool
  | JInt int
  | JStr pystr
  | JList "json list"
  | JDict "(pystr \<times> json) list"

type_synonym pydict = "(pystr \<times> json) list"

record APIResponse =
  status_code :: int
  data :: json
  success :: bool
  error_message :: pystr
  headers :: "(pystr \<times> pystr) list"

text \<open>
  The dataclass defaults: \<open>data=None\<close>, \<open>success=True\<close>, \<open>error_message=""\<close>,
  \<open>headers={}\<close>.
\<close>

definition APIResponse_defaults :: "int \<Rightarrow> APIResponse" where
  "APIResponse_defaults sc =
     \<lparr>status_code = sc, data = JNull, success = True, error_message = [], headers = []\<rparr>"

definition is_ok :: "APIResponse \<Rightarrow> bool" where
  "is_ok r = (200 \<le> status_code r \<and> status_code r < 300)"

definition is_created :: "APIResponse \<Rightarrow> bool" where
  "is_created r = (status_code r = 201)"

definition is_not_found :: "APIResponse \<Rightarrow> bool" where
  "is_not_found r = (status_code r = 404)"

subsection \<open>The library objects the client talks to\<close>

text \<open>
  A \<open>requests.Response\<close> as the client reads it. \<open>r_json\<close> is the result of
  \<open>response.json()\<close>: \<open>None\<close> when the call raises \<open>ValueError\<close> (the body is not JSON),
  otherwise the decoded value. \<open>r_chunks\<close> is what \<open>iter_content\<close> yields for a streamed
  body and \<open>r_stream_error\<close> the exception it raises after the last chunk, if any.
\<close>

record response =
  r_status_code :: int
  r_reason :: pystr
  r_url :: pystr
  r_headers :: "(pystr \<times> pystr) list"
  r_text :: pystr
  r_json :: "json option"
  r_chunks :: "bytes list"
  r_stream_error :: "py_exception option"

text \<open>
  \<open>Response.raise_for_status\<close> raises \<open>HTTPError\<close> for a status in 400..599 and nothing
  otherwise; \<open>Response.ok\<close> is true exactly when it raises nothing.
\<close>

definition raise_for_status :: "response \<Rightarrow> py_exception option" where
  "raise_for_status r =
     (if 400 \<le> r_status_code r \<and> r_status_code r < 500 then
        Some (Exc HTTPError (str_int (r_status_code r) @ u '' Client Error: '' @ r_reason r
                @ u '' for url: '' @ r_url r))
      else if 500 \<le> r_status_code r \<and> r_status_code r < 600 then
        Some (Exc HTTPError (str_int (r_status_code r) @ u '' Server Error: '' @ r_reason r
                @ u '' for url: '' @ r_url r))
      else None)"

definition r_ok :: "response \<Rightarrow> bool" where
  "r_ok r = (raise_for_status r = None)"

text \<open>
  \<open>urllib3.util.retry.Retry\<close>, with the fields the client sets and the two defaults it
  leaves alone (\<open>raise_on_status=True\<close>, \<open>respect_retry_after_header=True\<close>).
\<close>

record Retry =
  total :: int
  backoff_factor :: rat
  status_forcelist :: "int list"
  allowed_methods :: "pystr list"
  raise_on_status :: bool
  respect_retry_after_header :: bool

definition ascii_lower :: "nat \<Rightarrow> nat" where
  "ascii_lower c = (if 65 \<le> c \<and> c \<le> 90 then c + 32 else c)"

definition ascii_upper :: "nat \<Rightarrow> nat" where
  "ascii_upper c = (if 97 \<le> c \<and> c \<le> 122 then c - 32 else c)"

definition is_method_retryable :: "Retry \<Rightarrow> pystr \<Rightarrow> bool" where
  "is_method_retryable rt m =
     (if allowed_methods rt \<noteq> [] \<and> map ascii_upper m \<notin> set (allowed_methods rt)
      then False else True)"

definition has_retry_after :: "response \<Rightarrow> bool" where
  "has_retry_after r =
     (case find (\<lambda>kv. map ascii_lower (fst kv) = u ''retry-after'') (r_headers r) of
        None \<Rightarrow> False
      | Some kv \<Rightarrow> snd kv \<noteq> [])"

definition RETRY_AFTER_STATUS_CODES :: "int list" where
  "RETRY_AFTER_STATUS_CODES = [413, 429, 503]"

definition is_retry :: "Retry \<Rightarrow> pystr \<Rightarrow> int \<Rightarrow> bool \<Rightarrow> bool" where
  "is_retry rt m sc retry_after =
     (if \<not> is_method_retryable rt m then False
      else if status_forcelist rt \<noteq> [] \<and> sc \<in> set (status_forcelist rt) then True
      else (total rt \<noteq> 0 \<and> respect_retry_after_header rt \<and> retry_after
            \<and> sc \<in> set RETRY_AFTER_STATUS_CODES))"

text \<open>
  The request as \<open>Session.request\<close> receives it.
\<close>

record http_request =
  req_method :: pystr
  req_url :: pystr
  req_data :: "pydict option"
  req_json :: "pydict option"
  req_params :: "pydict option"
  req_timeout :: rat
  req_stream :: bool

text \<open>
  What one attempt to send a request meets: a reply from the server; a transport failure,
  carrying the \<open>requests\<close> exception that the adapter raises if this failure is the last
  one; or a failure before anything is sent (no adapter for the URL, a malformed URL),
  which is raised at once.
\<close>

datatype attempt_outcome =
    Replied response
  | TransportFailed py_exception
  | Aborted py_exception

text \<open>
  The environment of the client: the outcome of the \<open>i\<close>-th attempt of a request, the
  text of the \<open>RetryError\<close> raised for a request whose status retries are used up, and
  the file system's answers to \<open>open(path, "wb")\<close> and to a \<open>write\<close> of a chunk.
\<close>

type_synonym path = "pystr list"

definition path_name :: "path \<Rightarrow> pystr" where
  "path_name p = (if p = [] then [] else last p)"

record env =
  attempt :: "http_request \<Rightarrow> nat \<Rightarrow> attempt_outcome"
  retry_error_str :: "http_request \<Rightarrow> response \<Rightarrow> pystr"
  open_error :: "path \<Rightarrow> py_exception option"
  write_error :: "path \<Rightarrow> bytes \<Rightarrow> py_exception option"

datatype log_level = INFO | WARNING | ERROR

datatype log_record = Log log_level pystr

text \<open>
  The state the client changes: the log, the number of HTTP attempts put on the wire,
  and the files.
\<close>

record world =
  log :: "log_record list"
  sent :: nat
  files :: "path \<Rightarrow> bytes option"

text \<open>
  \<open>HTTPAdapter.send\<close> with a \<open>Retry\<close>: the loop of \<open>urlopen\<close>. Attempt \<open>i\<close> is made;
  a reply whose status \<open>is_retry\<close> accepts, or a transport failure, decrements \<open>total\<close>
  (\<open>Retry.increment\<close>); when the new total is negative the budget is exhausted. On
  exhaustion after a reply the adapter raises \<open>RetryError\<close> if \<open>raise_on_status\<close> is set and
  returns the reply otherwise; after a transport failure it raises that failure's
  exception. The result is paired with the number of attempts sent. The sleeps between
  attempts (\<open>backoff_factor\<close>) take time and change nothing else.
\<close>

function adapter_send ::
  "env \<Rightarrow> Retry \<Rightarrow> http_request \<Rightarrow> nat \<Rightarrow> (py_exception + response) \<times> nat" where
  "adapter_send e rt req i =
     (case attempt e req i of
        Aborted x \<Rightarrow> (Inl x, i)
      | TransportFailed x \<Rightarrow>
          (if total rt - 1 < 0 then (Inl x, Suc i)
           else adapter_send e (rt\<lparr>total := total rt - 1\<rparr>) req (Suc i))
      | Replied r \<Rightarrow>
          (if is_retry rt (req_method req) (r_status_code r) (has_retry_after r) then
             (if total rt - 1 < 0 then
                (if raise_on_status rt then Inl (Exc RetryError (retry_error_str e req r))
                 else Inr r, Suc i)
              else adapter_send e (rt\<lparr>total := total rt - 1\<rparr>) req (Suc i))
           else (Inr r, Suc i)))"
  by pat_completeness auto
termination
  by (relation "measure (\<lambda>(e, rt, req, i). nat (total rt))") auto

declare adapter_send.simps [simp del]

record Session =
  max_retries :: Retry
  session_headers :: "(pystr \<times> pystr) list"

definition Session_request :: "Session \<Rightarrow> env \<Rightarrow> http_request \<Rightarrow> (py_exception + response) \<times> nat" where
  "Session_request s e req = adapter_send e (max_retries s) req 0"

subsection \<open>BaseAPIClient\<close>

definition MAX_RETRIES :: int where
  "MAX_RETRIES = 3"

definition BACKOFF_FACTOR :: rat where
  "BACKOFF_FACTOR = 1 / 2"

definition RETRY_STATUS_CODES :: "int list" where
  "RETRY_STATUS_CODES = [429, 500, 502, 503, 504]"

definition default_headers :: "(pystr \<times> pystr) list" where
  "default_headers =
     [(u ''User-Agent'',
       u ''Mozilla/5.0 (Windows NT 10.0; Win64; x64) AppleWebKit/537.36 (KHTML, like Gecko) Chrome/135.0.0.0 Safari/537.36''),
      (u ''Accept-Language'', u ''en-US,en;q=0.9'')]"

definition create_session :: Session where
  "create_session =
     \<lparr>max_retries =
        \<lparr>total = MAX_RETRIES, backoff_factor = BACKOFF_FACTOR,
         status_forcelist = RETRY_STATUS_CODES,
         allowed_methods = [u ''GET'', u ''POST'', u ''PUT'', u ''DELETE'', u ''PATCH''],
         raise_on_status = True, respect_retry_after_header = True\<rparr>,
      session_headers = default_headers\<rparr>"

record BaseAPIClient =
  base_url :: pystr
  session :: Session

definition BaseAPIClient_init :: "pystr \<Rightarrow> BaseAPIClient" where
  "BaseAPIClient_init url = \<lparr>base_url = rstrip_slash url, session = create_session\<rparr>"

definition process_response :: "response \<Rightarrow> APIResponse" where
  "process_response r =
     (let d = (if r_text r \<noteq> [] then
                 (case r_json r of
                    Some v \<Rightarrow> v
                  | None \<Rightarrow> JDict [(u ''raw_text'', JStr (take 500 (r_text r)))])
               else JDict [])
      in \<lparr>status_code = r_status_code r, data = d, success = r_ok r,
          error_message = (if r_ok r then [] else r_reason r),
          headers = r_headers r\<rparr>)"

text \<open>
  The arguments \<open>_make_request\<close> passes to \<open>self._session.request\<close>; the timeout is
  \<open>settings.timeouts.DEFAULT_TIMEOUT / 1000\<close>, in seconds.
\<close>

definition request_args ::
  "TimeoutConfig \<Rightarrow> BaseAPIClient \<Rightarrow> HTTPMethod \<Rightarrow> pystr \<Rightarrow> pydict option \<Rightarrow>
   pydict option \<Rightarrow> pydict option \<Rightarrow> http_request" where
  "request_args tc self method endpoint dat json_data params =
     \<lparr>req_method = HTTPMethod_value method, req_url = base_url self @ endpoint,
      req_data = dat, req_json = json_data, req_params = params,
      req_timeout = of_int (DEFAULT_TIMEOUT tc) / 1000, req_stream = False\<rparr>"

definition make_request ::
  "TimeoutConfig \<Rightarrow> env \<Rightarrow> BaseAPIClient \<Rightarrow> HTTPMethod \<Rightarrow> pystr \<Rightarrow> pydict option \<Rightarrow>
   pydict option \<Rightarrow> pydict option \<Rightarrow> world \<Rightarrow> (py_exception + APIResponse) \<times> world" where
  "make_request tc e self method endpoint dat json_data params w =
     (let url = base_url self @ endpoint;
          req = request_args tc self method endpoint dat json_data params;
          (res, n) = Session_request (session self) e req;
          w1 = w\<lparr>sent := sent w + n\<rparr>
      in case res of
           Inr r \<Rightarrow> (Inr (process_response r), w1)
         | Inl x \<Rightarrow>
             (if is_Timeout (exc_type x) then
                (Inr ((APIResponse_defaults 408)
                        \<lparr>success := False, error_message := u ''Request timed out''\<rparr>),
                 w1\<lparr>log := log w1 @ [Log ERROR ([9201, 65039] @ u '' [API] Timeout: '' @ url)]\<rparr>)
              else if is_ConnectionError (exc_type x) then
                (Inr ((APIResponse_defaults 503)
                        \<lparr>success := False,
                         error_message := u ''Connection failed: '' @ exc_str x\<rparr>),
                 w1\<lparr>log := log w1
                    @ [Log ERROR ([10060] @ u '' [API] Connection Error: '' @ exc_str x)]\<rparr>)
              else if is_RequestException (exc_type x) then
                (Inr ((APIResponse_defaults 500)
                        \<lparr>success := False, error_message := exc_str x\<rparr>),
                 w1\<lparr>log := log w1
                    @ [Log ERROR ([10060] @ u '' [API] Request Error: '' @ exc_str x)]\<rparr>)
              else (Inl x, w1)))"

subsection \<open>PinterestAPIClient.download_file\<close>

text \<open>
  The loop \<open>for chunk in response.iter_content(...): f.write(chunk)\<close> on a file opened
  with \<open>"wb"\<close>: each chunk is appended; a failing write stops the loop and leaves what was
  written.
\<close>

fun write_chunks :: "env \<Rightarrow> path \<Rightarrow> bytes list \<Rightarrow> world \<Rightarrow> py_exception option \<times> world" where
  "write_chunks e p [] w = (None, w)"
| "write_chunks e p (c # cs) w =
     (case write_error e p c of
        Some x \<Rightarrow> (Some x, w)
      | None \<Rightarrow>
          write_chunks e p cs
            (w\<lparr>files := (files w)(p \<mapsto> (case files w p of None \<Rightarrow> c | Some b \<Rightarrow> b @ c))\<rparr>))"

definition download_failed :: "pystr \<Rightarrow> py_exception \<Rightarrow> world \<Rightarrow> bool \<times> world" where
  "download_failed url x w =
     (False, w\<lparr>log := log w
        @ [Log ERROR ([10060] @ u '' Download failed for '' @ url @ u '': '' @ exc_str x)]\<rparr>)"

definition download_file :: "env \<Rightarrow> BaseAPIClient \<Rightarrow> pystr \<Rightarrow> path \<Rightarrow> world \<Rightarrow> bool \<times> world" where
  "download_file e self url save_path w =
     (let req = \<lparr>req_method = u ''GET'', req_url = url, req_data = None, req_json = None,
                 req_params = None, req_timeout = 30, req_stream = True\<rparr>;
          (res, n) = Session_request (session self) e req;
          w1 = w\<lparr>sent := sent w + n\<rparr>
      in case res of
           Inl x \<Rightarrow> download_failed url x w1
         | Inr r \<Rightarrow>
             (case raise_for_status r of
                Some x \<Rightarrow> download_failed url x w1
              | None \<Rightarrow>
                  (case open_error e save_path of
                     Some x \<Rightarrow> download_failed url x w1
                   | None \<Rightarrow>
                       (case write_chunks e save_path (r_chunks r)
                               (w1\<lparr>files := (files w1)(save_path \<mapsto> [])\<rparr>) of
                          (Some x, w2) \<Rightarrow> download_failed url x w2
                        | (None, w2) \<Rightarrow>
                            (case r_stream_error r of
                               Some x \<Rightarrow> download_failed url x w2
                             | None \<Rightarrow>
                                 (True, w2\<lparr>log := log w2
                                    @ [Log INFO ([11015, 65039] @ u '' Downloaded: ''
                                         @ path_name save_path)]\<rparr>))))))"

section \<open>core/base_page.py\<close>

text \<open>
  A Playwright locator is identified by how it was built: \<open>page.locator(selector)\<close>,
  \<open>page.get_by_placeholder(re.compile(pattern, re.IGNORECASE))\<close> or
  \<open>page.get_by_label(text)\<close>.
\<close>

datatype locator =
    Css pystr
  | ByPlaceholderRegexI pystr
  | ByLabel pystr

text \<open>
  What a page object does to the outside, in order: records of the logger, and calls on
  the locator and the page.
\<close>

datatype event =
    LogEv log_level pystr
  | WaitForVisible locator int
  | Click locator pydict
  | Fill locator pystr pydict
  | TextContent locator
  | IsVisible locator
  | Screenshot pystr

text \<open>
  The browser's answers: for each call, the exception it raises or the value it
  returns. \<open>clock\<close> is the current time as \<open>strftime("%Y-%m-%d_%H-%M-%S")\<close> prints it.
\<close>

record page =
  wait_for_result :: "locator \<Rightarrow> int \<Rightarrow> py_exception option"
  click_result :: "locator \<Rightarrow> pydict \<Rightarrow> py_exception option"
  fill_result :: "locator \<Rightarrow> pystr \<Rightarrow> pydict \<Rightarrow> py_exception option"
  text_content_result :: "locator \<Rightarrow> py_exception + pystr option"
  is_visible_result :: "locator \<Rightarrow> py_exception + bool"
  screenshot_result :: "pystr \<Rightarrow> py_exception option"
  clock :: pystr

text \<open>
  The name \<open>settings\<close>. Every module but one binds it with
  \<open>from config.settings import settings\<close>, which gives the \<open>Settings\<close> instance.
  \<open>core/base_page.py\<close> binds it with \<open>from config import settings\<close>: the package
  \<open>config\<close> defines no attribute of that name, so the import yields the submodule
  \<open>config.settings\<close> itself. An attribute of a module is looked up among the names the
  module defines at top level; a missing one raises \<open>AttributeError\<close>.
\<close>

datatype settings_binding = SettingsInstance | SettingsModule

definition config_settings_globals :: "pystr list" where
  "config_settings_globals =
     [u ''os'', u ''dataclass'', u ''field'', u ''Enum'', u ''Path'', u ''Dict'',
      u ''load_dotenv'', u ''random'', u ''Environment'', u ''ENV_URLS'', u ''ENV_API_URLS'',
      u ''URLConfig'', u ''TimeoutConfig'', u ''BrowserSettings'', u ''TestCredentials'',
      u ''Settings'', u ''settings'']"

definition get_current_timestamp :: "settings_binding \<Rightarrow> pystr \<Rightarrow> py_exception + pystr" where
  "get_current_timestamp b now =
     (case b of
        SettingsInstance \<Rightarrow> Inr now
      | SettingsModule \<Rightarrow>
          (if u ''get_current_timestamp'' \<in> set config_settings_globals then Inr now
           else Inl (Exc (Builtin (u ''AttributeError''))
                  (u ''module '' @ [39] @ u ''config.settings'' @ [39]
                   @ u '' has no attribute '' @ [39] @ u ''get_current_timestamp'' @ [39]))))"

definition base_page_settings :: settings_binding where
  "base_page_settings = SettingsModule"

text \<open>
  \<open>take_screenshot\<close>: the whole body is inside \<open>try\<close>, and \<open>except Exception\<close> turns any
  failure into a warning.
\<close>

definition could_not_take_screenshot :: "py_exception \<Rightarrow> event" where
  "could_not_take_screenshot x =
     LogEv WARNING ([9888, 65039] @ u '' Could not take screenshot: '' @ exc_str x)"

definition take_screenshot :: "page \<Rightarrow> pystr \<Rightarrow> event list \<Rightarrow> event list" where
  "take_screenshot pg name tr =
     (case get_current_timestamp base_page_settings (clock pg) of
        Inl x \<Rightarrow> tr @ [could_not_take_screenshot x]
      | Inr ts \<Rightarrow>
          (let path = u ''screenshots/'' @ (name @ ts) @ u ''.png''
           in case screenshot_result pg path of
                Some x \<Rightarrow> tr @ [Screenshot path, could_not_take_screenshot x]
              | None \<Rightarrow>
                  tr @ [Screenshot path,
                        LogEv INFO ([128248] @ u '' Screenshot saved: '' @ path)]))"

definition click ::
  "page \<Rightarrow> locator \<Rightarrow> pystr \<Rightarrow> pydict \<Rightarrow> event list \<Rightarrow> (py_exception + unit) \<times> event list" where
  "click pg loc description kwargs tr =
     (let tr1 = tr @ [LogEv INFO ([128433, 65039] @ u '' Clicking on '' @ [39] @ description @ [39]),
                      Click loc kwargs]
      in case click_result pg loc kwargs of
           None \<Rightarrow> (Inr (), tr1)
         | Some x \<Rightarrow>
             (let tr2 = tr1 @ [LogEv ERROR ([10060] @ u '' Failed to click '' @ [39] @ description
                                  @ [39] @ u '': '' @ exc_str x)];
                  tr3 = take_screenshot pg (u ''fail_click_'' @ description) tr2
              in (Inl x, tr3)))"

definition fill ::
  "page \<Rightarrow> locator \<Rightarrow> pystr \<Rightarrow> pystr \<Rightarrow> pydict \<Rightarrow> event list
   \<Rightarrow> (py_exception + unit) \<times> event list" where
  "fill pg loc text description kwargs tr =
     (let tr1 = tr @ [LogEv INFO ([9000, 65039] @ u '' Typing '' @ [39] @ text @ [39]
                         @ u '' into '' @ [39] @ description @ [39]),
                      Fill loc text kwargs]
      in case fill_result pg loc text kwargs of
           None \<Rightarrow> (Inr (), tr1)
         | Some x \<Rightarrow> (Inl x, tr1))"

text \<open>
  \<open>get_text\<close>: \<open>locator.text_content() or ""\<close>, stripped. Its only log record is at
  DEBUG level.
\<close>

definition get_text ::
  "page \<Rightarrow> locator \<Rightarrow> pystr option \<Rightarrow> event list \<Rightarrow> (py_exception + pystr) \<times> event list" where
  "get_text pg loc description tr =
     (let tr1 = tr @ [TextContent loc]
      in case text_content_result pg loc of
           Inl x \<Rightarrow> (Inl x, tr1)
         | Inr t \<Rightarrow>
             (let text = (case t of None \<Rightarrow> [] | Some s \<Rightarrow> (if s = [] then [] else s))
              in (Inr (strip text), tr1)))"

definition is_visible ::
  "page \<Rightarrow> locator \<Rightarrow> event list \<Rightarrow> (py_exception + bool) \<times> event list" where
  "is_visible pg loc tr = (is_visible_result pg loc, tr @ [IsVisible loc])"

text \<open>
  \<open>is_visible_slow\<close>: \<open>locator.wait_for(state="visible", timeout=timeout)\<close> inside
  \<open>try\<close>; \<open>except Exception\<close> answers \<open>False\<close>.
\<close>

definition is_visible_slow ::
  "page \<Rightarrow> locator \<Rightarrow> int \<Rightarrow> event list \<Rightarrow> (py_exception + bool) \<times> event list" where
  "is_visible_slow pg loc timeout tr =
     (case wait_for_result pg loc timeout of
        None \<Rightarrow> (Inr True, tr @ [WaitForVisible loc timeout])
      | Some x \<Rightarrow> (Inr False, tr @ [WaitForVisible loc timeout]))"

section \<open>pages/locators.py and pages/home_page.py\<close>

definition SEARCH_INPUT_SELECTOR :: pystr where
  "SEARCH_INPUT_SELECTOR = u ''[data-test-id='' @ [39] @ u ''search-box-input'' @ [39] @ u '']''"

definition SEARCH_INPUT_BY_NAME :: pystr where
  "SEARCH_INPUT_BY_NAME = u ''input[name='' @ [39] @ u ''searchBoxInput'' @ [39] @ u '']''"

definition SEARCH_PLACEHOLDER_PATTERN :: pystr where
  "SEARCH_PLACEHOLDER_PATTERN =
     u ''Search|T'' @ [236] @ u ''m ki'' @ [7871] @ u ''m|'' @ [25628, 32034] @ u ''|''
     @ [26908, 32034] @ u ''|Rechercher''"

definition search_box_not_found :: py_exception where
  "search_box_not_found =
     Exc (Builtin (u ''Exception'')) ([10060] @ u '' Search box not found with any strategy!'')"

text \<open>
  \<open>_get_active_search_box\<close>: three candidates, each probed with \<open>is_visible_slow\<close> and a
  budget of 2000 ms, in source order. A value \<open>Inl\<close> from \<open>is_visible_slow\<close> would
  propagate.
\<close>

definition get_active_search_box ::
  "page \<Rightarrow> event list \<Rightarrow> (py_exception + locator) \<times> event list" where
  "get_active_search_box pg tr =
     (let box_technical = Css SEARCH_INPUT_SELECTOR
      in case is_visible_slow pg box_technical 2000 tr of
           (Inl x, tr1) \<Rightarrow> (Inl x, tr1)
         | (Inr True, tr1) \<Rightarrow> (Inr box_technical, tr1)
         | (Inr False, tr1) \<Rightarrow>
             (let box_by_name = Css SEARCH_INPUT_BY_NAME
              in case is_visible_slow pg box_by_name 2000 tr1 of
                   (Inl x, tr2) \<Rightarrow> (Inl x, tr2)
                 | (Inr True, tr2) \<Rightarrow>
                     (Inr box_by_name,
                      tr2 @ [LogEv WARNING ([9888, 65039]
                               @ u '' Primary selector failed. Using name attribute fallback.'')])
                 | (Inr False, tr2) \<Rightarrow>
                     (let box_label = ByPlaceholderRegexI SEARCH_PLACEHOLDER_PATTERN
                      in case is_visible_slow pg box_label 2000 tr2 of
                           (Inl x, tr3) \<Rightarrow> (Inl x, tr3)
                         | (Inr True, tr3) \<Rightarrow>
                             (Inr box_label,
                              tr3 @ [LogEv WARNING ([9888, 65039]
                                       @ u '' Using placeholder pattern fallback.'')])
                         | (Inr False, tr3) \<Rightarrow>
                             (Inl search_box_not_found,
                              take_screenshot pg (u ''search_box_missing'') tr3))))"

text \<open>
  The candidates in the order the function tries them, whether a candidate becomes
  visible within the budget, and the locators probed in a trace.
\<close>

definition search_box_candidates :: "locator list" where
  "search_box_candidates =
     [Css SEARCH_INPUT_SELECTOR, Css SEARCH_INPUT_BY_NAME,
      ByPlaceholderRegexI SEARCH_PLACEHOLDER_PATTERN]"

definition becomes_visible :: "page \<Rightarrow> locator \<Rightarrow> bool" where
  "becomes_visible pg loc = (wait_for_result pg loc 2000 = None)"

fun probed :: "event list \<Rightarrow> locator list" where
  "probed [] = []"
| "probed (WaitForVisible loc t # es) = loc # probed es"
| "probed (e # es) = probed es"

fun screenshots :: "event list \<Rightarrow> pystr list" where
  "screenshots [] = []"
| "screenshots (Screenshot p # es) = p # screenshots es"
| "screenshots (e # es) = screenshots es"

section \<open>Concrete scenarios\<close>

text \<open>
  Inputs on which the functions above are evaluated below: a configuration, a client, an
  empty world, a server that answers every attempt with one status, a session call that
  fails at once with a given exception, and pages on which a given set of locators
  becomes visible and every click fails.
\<close>

definition timeouts0 :: TimeoutConfig where
  "timeouts0 = fst (TimeoutConfig_class_body \<lparr>raw = (\<lambda>i. 0), pos = 0\<rparr>)"

definition client0 :: BaseAPIClient where
  "client0 = BaseAPIClient_init (u ''https://api.pinterest.com/v3/'')"

definition world0 :: world where
  "world0 = \<lparr>log = [], sent = 0, files = (\<lambda>p. None)\<rparr>"

definition reply :: "int \<Rightarrow> pystr \<Rightarrow> pystr \<Rightarrow> json option \<Rightarrow> response" where
  "reply sc reason text js =
     \<lparr>r_status_code = sc, r_reason = reason, r_url = [], r_headers = [], r_text = text,
      r_json = js, r_chunks = [], r_stream_error = None\<rparr>"

definition server_always :: "response \<Rightarrow> env" where
  "server_always r =
     \<lparr>attempt = (\<lambda>req i. Replied r),
      retry_error_str = (\<lambda>req r. u ''Max retries exceeded''),
      open_error = (\<lambda>p. None), write_error = (\<lambda>p c. None)\<rparr>"

definition session_raises :: "py_exception \<Rightarrow> env" where
  "session_raises x =
     \<lparr>attempt = (\<lambda>req i. Aborted x),
      retry_error_str = (\<lambda>req r. u ''Max retries exceeded''),
      open_error = (\<lambda>p. None), write_error = (\<lambda>p c. None)\<rparr>"

definition detached :: py_exception where
  "detached = Exc PlaywrightError (u ''Element is not attached to the DOM'')"

definition page_showing :: "locator list \<Rightarrow> page" where
  "page_showing vis =
     \<lparr>wait_for_result = (\<lambda>loc t. if loc \<in> set vis then None
                                 else Some (Exc PlaywrightTimeoutError (u ''Timeout exceeded''))),
      click_result = (\<lambda>loc kw. Some detached),
      fill_result = (\<lambda>loc text kw. Some detached),
      text_content_result = (\<lambda>loc. Inl detached),
      is_visible_result = (\<lambda>loc. Inr (loc \<in> set vis)),
      screenshot_result = (\<lambda>p. None),
      clock = u ''2025-01-01_00-00-00''\<rparr>"

section \<open>Properties of the timeout configuration\<close>

lemma randint_range: "a \<le> b \<Longrightarrow> a \<le> fst (randint g a b) \<and> fst (randint g a b) \<le> b"
proof -
  assume ab: "a \<le> b"
  have "raw g (pos g) mod nat (b - a + 1) < nat (b - a + 1)"
    using ab by simp
  then have "int (raw g (pos g) mod nat (b - a + 1)) < b - a + 1"
    using ab by linarith
  then show ?thesis
    by (simp add: randint_def)
qed

lemma class_body_ranges:
  "300 \<le> TYPING_TIMEOUT (fst (TimeoutConfig_class_body g))
   \<and> TYPING_TIMEOUT (fst (TimeoutConfig_class_body g)) \<le> 500
   \<and> 1000 \<le> SHORT13_TIMEOUT (fst (TimeoutConfig_class_body g))
   \<and> SHORT13_TIMEOUT (fst (TimeoutConfig_class_body g)) \<le> 3000
   \<and> 2000 \<le> SHORT24_TIMEOUT (fst (TimeoutConfig_class_body g))
   \<and> SHORT24_TIMEOUT (fst (TimeoutConfig_class_body g)) \<le> 4000"
proof -
  obtain t1 g1 where r1: "randint g 300 500 = (t1, g1)" by (cases "randint g 300 500")
  obtain t2 g2 where r2: "randint g1 1000 3000 = (t2, g2)" by (cases "randint g1 1000 3000")
  obtain t3 g3 where r3: "randint g2 2000 4000 = (t3, g3)" by (cases "randint g2 2000 4000")
  have "300 \<le> t1 \<and> t1 \<le> 500" using randint_range [of 300 500 g] r1 by simp
  moreover have "1000 \<le> t2 \<and> t2 \<le> 3000" using randint_range [of 1000 3000 g1] r2 by simp
  moreover have "2000 \<le> t3 \<and> t3 \<le> 4000" using randint_range [of 2000 4000 g2] r3 by simp
  ultimately show ?thesis
    by (simp add: TimeoutConfig_class_body_def r1 r2 r3)
qed

lemma class_body_constants:
  "DEFAULT_TIMEOUT (fst (TimeoutConfig_class_body g)) = 30000
   \<and> LONG_TIMEOUT (fst (TimeoutConfig_class_body g)) = 60000
   \<and> PAGE_LOAD_TIMEOUT (fst (TimeoutConfig_class_body g)) = 45000
   \<and> ELEMENT_TIMEOUT (fst (TimeoutConfig_class_body g)) = 10000"
  by (simp add: TimeoutConfig_class_body_def split: prod.splits)

lemma import_settings_defaults:
  "TimeoutConfig_defaults (import_settings g) = fst (TimeoutConfig_class_body g)"
  by (simp add: import_settings_def split: prod.splits)

lemma Settings_timeouts_iterate:
  "((snd \<circ> Settings_timeouts) ^^ n) p = p"
  by (induction n) (simp_all add: Settings_timeouts_def TimeoutConfig_init_def)

text \<open>
  C9. For every generator state at import time, every field of the configuration that
  \<open>Settings\<close> reads is between 300 and 60000 milliseconds, the three randomized fields lie in
  [300,500], [1000,3000] and [2000,4000], and however many \<open>TimeoutConfig()\<close> instances are
  built afterwards in the same process, each equals the defaults drawn at import and the
  generator is left where the import left it: no value is drawn again.
\<close>

theorem timeouts_bounded_and_fixed_per_process:
  "(let p = import_settings g;
        t = fst (Settings_timeouts (((snd \<circ> Settings_timeouts) ^^ n) p));
        p' = snd (Settings_timeouts (((snd \<circ> Settings_timeouts) ^^ n) p))
    in list_all (\<lambda>v. 300 \<le> v \<and> v \<le> 60000) (timeout_fields t)
       \<and> 300 \<le> TYPING_TIMEOUT t \<and> TYPING_TIMEOUT t \<le> 500
       \<and> 1000 \<le> SHORT13_TIMEOUT t \<and> SHORT13_TIMEOUT t \<le> 3000
       \<and> 2000 \<le> SHORT24_TIMEOUT t \<and> SHORT24_TIMEOUT t \<le> 4000
       \<and> t = TimeoutConfig_defaults p
       \<and> p' = p
       \<and> pos (generator p') = pos g + 3)"
proof -
  let ?d = "fst (TimeoutConfig_class_body g)"
  have d: "TimeoutConfig_defaults (import_settings g) = ?d"
    by (rule import_settings_defaults)
  have pos: "pos (generator (import_settings g)) = pos g + 3"
    by (simp add: import_settings_def TimeoutConfig_class_body_def randint_def
        split: prod.splits)
  have fields: "list_all (\<lambda>v. 300 \<le> v \<and> v \<le> 60000) (timeout_fields ?d)"
    using class_body_ranges [of g] class_body_constants [of g]
    by (simp add: timeout_fields_def)
  show ?thesis
    using class_body_ranges [of g] fields d pos
    by (simp add: Let_def Settings_timeouts_iterate Settings_timeouts_def
        TimeoutConfig_init_def)
qed

section \<open>The retry loop of the session\<close>

lemma method_retryable:
  "is_method_retryable (max_retries create_session\<lparr>total := t\<rparr>) (HTTPMethod_value m)"
  by (cases m) (simp_all add: is_method_retryable_def create_session_def u_def ascii_upper_def)

lemma forcelist_create_session:
  "status_forcelist (max_retries create_session\<lparr>total := t\<rparr>) = [429, 500, 502, 503, 504]"
  by (simp add: create_session_def RETRY_STATUS_CODES_def)

lemma adapter_send_attempts_le:
  "snd (adapter_send e rt req i) \<le> Suc (i + nat (total rt))"
proof (induction e rt req i rule: adapter_send.induct)
  case (1 e rt req i)
  show ?case
  proof (cases "attempt e req i")
    case (Replied r)
    show ?thesis
    proof (cases "is_retry rt (req_method req) (r_status_code r) (has_retry_after r) \<and> \<not> total rt - 1 < 0")
      case True
      then have "snd (adapter_send e (rt\<lparr>total := total rt - 1\<rparr>) req (Suc i))
                   \<le> Suc (Suc i + nat (total rt - 1))"
        using "1.IH"(1) [of r] Replied by simp
      moreover have "adapter_send e rt req i = adapter_send e (rt\<lparr>total := total rt - 1\<rparr>) req (Suc i)"
        using True Replied by (subst adapter_send.simps [of e rt req i]) simp
      moreover have "Suc (nat (total rt - 1)) = nat (total rt)" using True by linarith
      ultimately show ?thesis by simp
    next
      case False
      then show ?thesis using Replied by (subst adapter_send.simps [of e rt req i]) auto
    qed
  next
    case (TransportFailed x)
    show ?thesis
    proof (cases "total rt - 1 < 0")
      case True
      then show ?thesis using TransportFailed by (subst adapter_send.simps [of e rt req i]) simp
    next
      case False
      then have "snd (adapter_send e (rt\<lparr>total := total rt - 1\<rparr>) req (Suc i))
                   \<le> Suc (Suc i + nat (total rt - 1))"
        using "1.IH"(2) [of x] TransportFailed by simp
      moreover have "adapter_send e rt req i = adapter_send e (rt\<lparr>total := total rt - 1\<rparr>) req (Suc i)"
        using False TransportFailed by (subst adapter_send.simps [of e rt req i]) simp
      moreover have "Suc (nat (total rt - 1)) = nat (total rt)" using False by linarith
      ultimately show ?thesis by simp
    qed
  next
    case (Aborted x)
    then show ?thesis by (subst adapter_send.simps [of e rt req i]) simp
  qed
qed

lemma adapter_send_forced:
  assumes rep: "\<And>i. attempt e req i = Replied (srv i)"
      and meth: "is_method_retryable rt (req_method req)"
      and st: "\<And>i. r_status_code (srv i) \<in> set (status_forcelist rt)"
      and raise: "raise_on_status rt"
      and tot: "total rt = int n"
  shows "adapter_send e rt req i =
           (Inl (Exc RetryError (retry_error_str e req (srv (i + n)))), Suc (i + n))"
  using meth st raise tot
proof (induction n arbitrary: rt i)
  case 0
  have "is_retry rt (req_method req) (r_status_code (srv i)) (has_retry_after (srv i))"
    using "0.prems"(1) "0.prems"(2) [of i] by (auto simp: is_retry_def)
  then show ?case
    using rep [of i] "0.prems"(3,4) by (subst adapter_send.simps [of e rt req i]) simp
next
  case (Suc n)
  let ?rt = "rt\<lparr>total := total rt - 1\<rparr>"
  have retry: "is_retry rt (req_method req) (r_status_code (srv i)) (has_retry_after (srv i))"
    using Suc.prems(1) Suc.prems(2) [of i] by (auto simp: is_retry_def)
  have "adapter_send e rt req i = adapter_send e ?rt req (Suc i)"
    using rep [of i] retry Suc.prems(4) by (subst adapter_send.simps [of e rt req i]) simp
  also have "\<dots> = (Inl (Exc RetryError (retry_error_str e req (srv (Suc i + n)))), Suc (Suc i + n))"
  proof (rule Suc.IH)
    show "is_method_retryable ?rt (req_method req)"
      using Suc.prems(1) by (simp add: is_method_retryable_def)
    show "\<And>i. r_status_code (srv i) \<in> set (status_forcelist ?rt)"
      using Suc.prems(2) by simp
    show "raise_on_status ?rt" using Suc.prems(3) by simp
    show "total ?rt = int n" using Suc.prems(4) by simp
  qed
  finally show ?case by simp
qed

end
